theory Spec2Isabelle
  imports Main "HOL-Library.Word"
begin

section \<open>Values that cross the interface of the Bee class\<close>

text \<open>
  The class \<open>Bee\<close> is the only code of the repository in the sources. Everything it
  imports (validators, canonicalisers, the network modules) is declared elsewhere, so the
  model takes those helpers as the fields of a record \<open>lib\<close> and the methods of the class
  are functions of it. A thrown exception (or a rejected promise) is the \<open>Inl\<close> of a sum.
\<close>

type_synonym byte = "8 word"
type_synonym bytes = "byte list"

text \<open>Thrown values. \<open>ResponseError s\<close> is an error whose \<open>response.status\<close> is \<open>s\<close>;
  \<open>OtherError\<close> is any other thrown value (it carries no response).\<close>

datatype error =
    TypeError string
  | BeeError string
  | BeeArgumentError string
  | ResponseError nat
  | OtherError string

text \<open>\<open>e?.response?.status\<close>\<close>

fun response_status :: "error \<Rightarrow> nat option" where
  "response_status (ResponseError s) = Some s"
| "response_status _ = None"

text \<open>\<open>e instanceof BeeError\<close>; \<open>BeeArgumentError\<close> is the subclass of \<open>BeeError\<close> in utils/error.\<close>

fun instanceofBeeError :: "error \<Rightarrow> bool" where
  "instanceofBeeError (BeeError _) = True"
| "instanceofBeeError (BeeArgumentError _) = True"
| "instanceofBeeError _ = False"

text \<open>The shapes \<open>Uint8Array | string\<close> in which a topic, an owner or an address arrives;
  the canonical \<open>Topic\<close> and \<open>EthAddress\<close> are values of one of these shapes.\<close>

datatype js_data = Uint8Array bytes | JsString string

record Signer =
  address :: js_data
  sign :: "bytes \<Rightarrow> bytes"

text \<open>\<open>Signer | Uint8Array | string\<close>\<close>

datatype signer_arg = SignerObject Signer | SignerBytes bytes | SignerString string

text \<open>\<open>Index | number | IndexBytes | string\<close>: a sequence number, its 8 bytes, or a string.\<close>

datatype index_arg = IndexNumber nat | IndexBytes bytes | IndexString string

text \<open>\<open>FeedType = 'sequence' | 'epoch'\<close>; \<open>assertFeedType\<close> accepts both values of the type.\<close>

datatype feed_type = Sequence | Epoch

text \<open>JavaScript truthiness, as the conditions \<open>if (signer)\<close>, \<open>if (!index)\<close> and
  \<open>options?.signer && options?.address\<close> read it: an object or a byte array is truthy,
  the empty string and the number 0 are not.\<close>

fun data_truthy :: "js_data \<Rightarrow> bool" where
  "data_truthy (Uint8Array _) = True"
| "data_truthy (JsString s) = (s \<noteq> [])"

fun signer_truthy :: "signer_arg \<Rightarrow> bool" where
  "signer_truthy (SignerObject _) = True"
| "signer_truthy (SignerBytes _) = True"
| "signer_truthy (SignerString s) = (s \<noteq> [])"

fun index_truthy :: "index_arg \<Rightarrow> bool" where
  "index_truthy (IndexNumber n) = (n \<noteq> 0)"
| "index_truthy (IndexBytes _) = True"
| "index_truthy (IndexString s) = (s \<noteq> [])"

text \<open>An optional argument as a condition: \<open>undefined\<close> and a falsy value count as absent.\<close>

definition present :: "('a \<Rightarrow> bool) \<Rightarrow> 'a option \<Rightarrow> 'a option" where
  "present truthy v = (case v of None \<Rightarrow> None | Some x \<Rightarrow> if truthy x then Some x else None)"

text \<open>\<open>BeeRequestOptions\<close> (the hooks \<open>onRequest\<close> and \<open>adapter\<close> are left out); a timeout
  of \<open>None\<close> is \<open>false\<close> or \<open>undefined\<close>.\<close>

record request_options =
  ro_baseURL :: "string option"
  ro_timeout :: "int option"
  ro_headers :: "(string \<times> string) list option"

record bee_options = request_options +
  bo_signer :: "signer_arg option"

record upload_options =
  uo_pin :: "bool option"
  uo_encrypt :: "bool option"
  uo_tag :: "nat option"

record json_feed_options = request_options +
  jf_signer :: "signer_arg option"
  jf_address :: "js_data option"
  jf_type :: "feed_type option"

text \<open>The instance: \<open>url\<close>, the default \<open>signer\<close> and \<open>requestOptions\<close>.\<close>

record bee =
  bee_url :: string
  bee_signer :: "Signer option"
  bee_requestOptions :: request_options

text \<open>The objects the feed module hands out close over what they were made from.\<close>

record feed_reader =
  fr_options :: request_options
  fr_type :: feed_type
  fr_topic :: js_data
  fr_owner :: js_data

record feed_writer =
  fw_options :: request_options
  fw_type :: feed_type
  fw_topic :: js_data
  fw_signer :: Signer

record soc_reader =
  sr_owner :: js_data
  sr_options :: request_options
  sr_address :: js_data

record soc_writer =
  sw_reader :: soc_reader
  sw_signer :: Signer

section \<open>Calls to the network modules\<close>

text \<open>
  An asynchronous method is modelled by the calls it makes to the network modules, in
  order, and by how it ends: \<open>([], Inl e)\<close> is a method that threw before any request.
\<close>

datatype call =
    ChunkUpload request_options bytes string
  | FeedDownload request_options feed_type js_data js_data
  | ChainCheck js_data js_data index_arg request_options
  | CheckConnection request_options
  | CreateFeedManifest request_options js_data js_data string feed_type
  | GetJsonData request_options feed_type js_data js_data
  | SetJsonData request_options feed_type js_data js_data string

type_synonym 'a io = "call list \<times> (error + 'a)"

definition io_return :: "'a \<Rightarrow> 'a io" where
  "io_return x = ([], Inr x)"

definition io_throw :: "error \<Rightarrow> 'a io" where
  "io_throw e = ([], Inl e)"

definition io_lift :: "error + 'a \<Rightarrow> 'a io" where
  "io_lift r = ([], r)"

definition io_call :: "call \<Rightarrow> error + 'a \<Rightarrow> 'a io" where
  "io_call c r = ([c], r)"

definition io_bind :: "'a io \<Rightarrow> ('a \<Rightarrow> 'b io) \<Rightarrow> 'b io" where
  "io_bind m f =
     (case m of
        (t, Inl e) \<Rightarrow> (t, Inl e)
      | (t, Inr x) \<Rightarrow> (case f x of (t', r) \<Rightarrow> (t @ t', r)))"

text \<open>\<open>try { m } catch (e) { h e }\<close>\<close>

definition io_catch :: "'a io \<Rightarrow> (error \<Rightarrow> 'a io) \<Rightarrow> 'a io" where
  "io_catch m h =
     (case m of
        (t, Inl e) \<Rightarrow> (case h e of (t', r) \<Rightarrow> (t @ t', r))
      | (t, Inr x) \<Rightarrow> (t, Inr x))"

text \<open>An \<open>assert...\<close> helper returns nothing or throws: \<open>None\<close> is a value that passed.\<close>

definition io_assert :: "error option \<Rightarrow> 'a io \<Rightarrow> 'a io" where
  "io_assert a k = (case a of Some e \<Rightarrow> io_throw e | None \<Rightarrow> k)"

definition assert_then :: "error option \<Rightarrow> error + 'a \<Rightarrow> error + 'a" where
  "assert_then a k = (case a of Some e \<Rightarrow> Inl e | None \<Rightarrow> k)"

definition and_then :: "error + 'a \<Rightarrow> ('a \<Rightarrow> error + 'b) \<Rightarrow> error + 'b" where
  "and_then r f = (case r of Inl e \<Rightarrow> Inl e | Inr x \<Rightarrow> f x)"

section \<open>The imported helpers\<close>

text \<open>
  What the class imports and the sources do not hold: the constants of \<open>types\<close>, the
  validators and canonicalisers of \<open>utils\<close>, \<open>chunk/signer\<close> and \<open>feed\<close>, the merge of
  cafe-utility, and the functions of the network modules, each with the outcome of its
  requests as its value.
\<close>

record lib =
  SPAN_SIZE :: nat
  CHUNK_SIZE :: nat
  DEFAULT_FEED_TYPE :: feed_type
  assertBeeUrl :: "string \<Rightarrow> error option"
  assertBatchId :: "string \<Rightarrow> error option"
  assertUploadOptions :: "upload_options \<Rightarrow> error option"
  assertRequestOptions :: "request_options option \<Rightarrow> error option"
  makeSigner :: "signer_arg \<Rightarrow> error + Signer"
  makeEthAddress :: "js_data \<Rightarrow> error + js_data"
  makeHexEthAddress :: "js_data \<Rightarrow> error + js_data"
  makeTopic :: "js_data \<Rightarrow> error + js_data"
  makeTopicFromString :: "string \<Rightarrow> js_data"
  deepMerge2 :: "request_options \<Rightarrow> request_options \<Rightarrow> request_options"
  chunk_upload :: "request_options \<Rightarrow> bytes \<Rightarrow> string \<Rightarrow> upload_options option \<Rightarrow> error + string"
  feedReader_download :: "feed_reader \<Rightarrow> error + bytes \<times> nat"
  areAllSequentialFeedsUpdateRetrievable ::
    "bee \<Rightarrow> js_data \<Rightarrow> js_data \<Rightarrow> index_arg \<Rightarrow> request_options \<Rightarrow> error + bool"
  status_checkConnection :: "request_options \<Rightarrow> error option"
  feed_createFeedManifest ::
    "request_options \<Rightarrow> js_data \<Rightarrow> js_data \<Rightarrow> string \<Rightarrow> feed_type \<Rightarrow> error + string"
  getJsonData :: "bee \<Rightarrow> feed_reader \<Rightarrow> error + string"
  setJsonData ::
    "bee \<Rightarrow> feed_writer \<Rightarrow> string \<Rightarrow> string \<Rightarrow> json_feed_options option \<Rightarrow>
     request_options option \<Rightarrow> error + string"

text \<open>Decimal digits of a number, for the messages that print a constant.\<close>

fun showNat :: "nat \<Rightarrow> string" where
  "showNat n =
     (if n < 10 then [char_of (48 + n)]
      else showNat (n div 10) @ [char_of (48 + n mod 10)])"

declare showNat.simps [simp del]


section \<open>The class Bee\<close>

subsection \<open>Messages\<close>

definition msg_too_small :: "lib \<Rightarrow> string" where
  "msg_too_small L = ''Chunk has to have size of at least '' @ showNat (SPAN_SIZE L) @ ''.''"

definition msg_too_large :: "lib \<Rightarrow> string" where
  "msg_too_large L = ''Chunk has to have size of at most '' @ showNat (CHUNK_SIZE L) @ ''.''"

definition msg_only_sequence :: string where
  "msg_only_sequence = ''Only Sequence type of Feeds is supported at the moment''"

definition msg_both :: string where
  "msg_both = ''Both options '' @ [CHR 0x22] @ ''signer'' @ [CHR 0x22] @ '' and '' @ [CHR 0x22]
     @ ''address'' @ [CHR 0x22] @ '' can not be specified at one time!''"

definition msg_either :: string where
  "msg_either = ''Either address, signer or default signer has to be specified!''"

definition msg_no_signer :: string where
  "msg_no_signer =
     ''You have to pass Signer as property to either the method call or constructor! Non found.''"

subsection \<open>Construction\<close>

text \<open>
  Modelled from the spec: \<open>stripLastSlash\<close> (utils/url) is not in the sources and the
  specification is silent on URLs; this is what the constructor's comment says of it
  ("Remove last slash if present"): the URL without its last character when that is a slash.
\<close>

definition stripLastSlash :: "string \<Rightarrow> string" where
  "stripLastSlash url = (if url \<noteq> [] \<and> last url = CHR ''/'' then butlast url else url)"

definition Bee_constructor :: "lib \<Rightarrow> string \<Rightarrow> bee_options option \<Rightarrow> error + bee" where
  "Bee_constructor L url options =
     assert_then (assertBeeUrl L url)
       (and_then
          (case present signer_truthy (Option.bind options bo_signer) of
             Some s \<Rightarrow> and_then (makeSigner L s) (\<lambda>sg. Inr (Some sg))
           | None \<Rightarrow> Inr None)
          (\<lambda>sg. Inr \<lparr>bee_url = stripLastSlash url, bee_signer = sg,
                    bee_requestOptions =
                      \<lparr>ro_baseURL = Some (stripLastSlash url),
                       ro_timeout = Option.bind options ro_timeout,
                       ro_headers = Option.bind options ro_headers\<rparr>\<rparr>))"

definition getRequestOptionsForCall :: "lib \<Rightarrow> bee \<Rightarrow> request_options option \<Rightarrow> request_options" where
  "getRequestOptionsForCall L this options =
     (case options of
        Some opts \<Rightarrow> deepMerge2 L (bee_requestOptions this) opts
      | None \<Rightarrow> bee_requestOptions this)"

definition resolveSigner :: "lib \<Rightarrow> bee \<Rightarrow> signer_arg option \<Rightarrow> error + Signer" where
  "resolveSigner L this signer =
     (case present signer_truthy signer of
        Some s \<Rightarrow> makeSigner L s
      | None \<Rightarrow>
          (case bee_signer this of
             Some d \<Rightarrow> Inr d
           | None \<Rightarrow> Inl (BeeError msg_no_signer)))"

subsection \<open>Chunks\<close>

definition uploadChunk ::
  "lib \<Rightarrow> bee \<Rightarrow> string \<Rightarrow> bytes \<Rightarrow> upload_options option \<Rightarrow> request_options option \<Rightarrow> string io" where
  "uploadChunk L this postageBatchId data options requestOptions =
     io_assert (assertBatchId L postageBatchId)
       (if length data < SPAN_SIZE L then io_throw (BeeArgumentError (msg_too_small L))
        else if length data > CHUNK_SIZE L + SPAN_SIZE L then io_throw (BeeArgumentError (msg_too_large L))
        else io_assert (case options of Some opts \<Rightarrow> assertUploadOptions L opts | None \<Rightarrow> None)
          (io_call (ChunkUpload (getRequestOptionsForCall L this requestOptions) data postageBatchId)
             (chunk_upload L (getRequestOptionsForCall L this requestOptions) data postageBatchId options)))"

subsection \<open>Feeds\<close>

definition feed_makeFeedReader :: "request_options \<Rightarrow> feed_type \<Rightarrow> js_data \<Rightarrow> js_data \<Rightarrow> feed_reader" where
  "feed_makeFeedReader ro type topic owner =
     \<lparr>fr_options = ro, fr_type = type, fr_topic = topic, fr_owner = owner\<rparr>"

definition feed_makeFeedWriter :: "request_options \<Rightarrow> feed_type \<Rightarrow> js_data \<Rightarrow> Signer \<Rightarrow> feed_writer" where
  "feed_makeFeedWriter ro type topic signer =
     \<lparr>fw_options = ro, fw_type = type, fw_topic = topic, fw_signer = signer\<rparr>"

text \<open>\<open>reader.download()\<close>: one call to the feed module, with the reader's own fields.\<close>

definition download :: "lib \<Rightarrow> feed_reader \<Rightarrow> (bytes \<times> nat) io" where
  "download L reader =
     io_call (FeedDownload (fr_options reader) (fr_type reader) (fr_topic reader) (fr_owner reader))
       (feedReader_download L reader)"

definition makeFeedReader ::
  "lib \<Rightarrow> bee \<Rightarrow> feed_type \<Rightarrow> js_data \<Rightarrow> js_data \<Rightarrow> request_options option \<Rightarrow> error + feed_reader" where
  "makeFeedReader L this type topic owner options =
     assert_then (assertRequestOptions L options)
       (and_then (makeTopic L topic) (\<lambda>canonicalTopic.
        and_then (makeHexEthAddress L owner) (\<lambda>canonicalOwner.
          Inr (feed_makeFeedReader (getRequestOptionsForCall L this options) type
                 canonicalTopic canonicalOwner))))"

definition makeFeedWriter ::
  "lib \<Rightarrow> bee \<Rightarrow> feed_type \<Rightarrow> js_data \<Rightarrow> signer_arg option \<Rightarrow> request_options option \<Rightarrow> error + feed_writer" where
  "makeFeedWriter L this type topic signer options =
     assert_then (assertRequestOptions L options)
       (and_then (makeTopic L topic) (\<lambda>canonicalTopic.
        and_then (resolveSigner L this signer) (\<lambda>canonicalSigner.
          Inr (feed_makeFeedWriter (getRequestOptionsForCall L this options) type
                 canonicalTopic canonicalSigner))))"

definition isFeedRetrievable ::
  "lib \<Rightarrow> bee \<Rightarrow> feed_type \<Rightarrow> js_data \<Rightarrow> js_data \<Rightarrow> index_arg option \<Rightarrow> request_options option \<Rightarrow> bool io" where
  "isFeedRetrievable L this type owner topic index options =
     io_bind (io_lift (makeEthAddress L owner)) (\<lambda>canonicalOwner.
     io_bind (io_lift (makeTopic L topic)) (\<lambda>canonicalTopic.
       (case present index_truthy index of
          None \<Rightarrow>
            io_catch
              (io_bind (io_lift (makeFeedReader L this type canonicalTopic canonicalOwner None))
                 (\<lambda>reader. io_bind (download L reader) (\<lambda>_. io_return True)))
              (\<lambda>e. if response_status e = Some 404 then io_return False else io_throw e)
        | Some i \<Rightarrow>
            if type \<noteq> Sequence then io_throw (BeeError msg_only_sequence)
            else io_call
                   (ChainCheck canonicalOwner canonicalTopic i (getRequestOptionsForCall L this options))
                   (areAllSequentialFeedsUpdateRetrievable L this canonicalOwner canonicalTopic i
                      (getRequestOptionsForCall L this options)))))"


definition makeFeedTopic :: "lib \<Rightarrow> string \<Rightarrow> js_data" where
  "makeFeedTopic L topic = makeTopicFromString L topic"

text \<open>\<open>options?.type ?? DEFAULT_FEED_TYPE\<close>\<close>

definition feedTypeOf :: "lib \<Rightarrow> json_feed_options option \<Rightarrow> feed_type" where
  "feedTypeOf L options =
     (case Option.bind options jf_type of Some t \<Rightarrow> t | None \<Rightarrow> DEFAULT_FEED_TYPE L)"

definition setJsonFeed ::
  "lib \<Rightarrow> bee \<Rightarrow> string \<Rightarrow> string \<Rightarrow> string \<Rightarrow> json_feed_options option \<Rightarrow> request_options option \<Rightarrow> string io" where
  "setJsonFeed L this postageBatchId topic data options requestOptions =
     io_assert (assertRequestOptions L (map_option request_options.truncate options))
       (io_assert (assertBatchId L postageBatchId)
          (io_bind
             (io_lift (makeFeedWriter L this (feedTypeOf L options) (makeFeedTopic L topic)
                         (Option.bind options jf_signer) requestOptions))
             (\<lambda>writer.
                io_call
                  (SetJsonData (fw_options writer) (fw_type writer) (fw_topic writer)
                     (address (fw_signer writer)) postageBatchId)
                  (setJsonData L this writer postageBatchId data options requestOptions))))"

text \<open>The local variable \<open>address\<close> of \<open>getJsonFeed\<close>: the guard on the two options, then
  the address given, or else the address of the resolved signer.\<close>

definition getJsonFeed_address :: "lib \<Rightarrow> bee \<Rightarrow> json_feed_options option \<Rightarrow> error + js_data" where
  "getJsonFeed_address L this options =
     (if present signer_truthy (Option.bind options jf_signer) \<noteq> None
         \<and> present data_truthy (Option.bind options jf_address) \<noteq> None
      then Inl (BeeError msg_both)
      else
        (case present data_truthy (Option.bind options jf_address) of
           Some a \<Rightarrow> makeEthAddress L a
         | None \<Rightarrow>
             (case resolveSigner L this (Option.bind options jf_signer) of
                Inr s \<Rightarrow> Inr (address s)
              | Inl e \<Rightarrow> if instanceofBeeError e then Inl (BeeError msg_either) else Inl e)))"

definition getJsonFeed :: "lib \<Rightarrow> bee \<Rightarrow> string \<Rightarrow> json_feed_options option \<Rightarrow> string io" where
  "getJsonFeed L this topic options =
     io_assert (assertRequestOptions L (map_option request_options.truncate options))
       (io_bind (io_lift (getJsonFeed_address L this options)) (\<lambda>addr.
        io_bind
          (io_lift (makeFeedReader L this (feedTypeOf L options) (makeFeedTopic L topic) addr
                      (map_option request_options.truncate options)))
          (\<lambda>reader.
             io_call
               (GetJsonData (fr_options reader) (fr_type reader) (fr_topic reader) (fr_owner reader))
               (getJsonData L this reader))))"

subsection \<open>Single owner chunks\<close>

definition makeSOCReader :: "lib \<Rightarrow> bee \<Rightarrow> js_data \<Rightarrow> request_options option \<Rightarrow> error + soc_reader" where
  "makeSOCReader L this ownerAddress options =
     assert_then (assertRequestOptions L options)
       (and_then (makeEthAddress L ownerAddress) (\<lambda>canonicalOwner.
        and_then (makeHexEthAddress L canonicalOwner) (\<lambda>owner.
          Inr \<lparr>sr_owner = owner, sr_options = getRequestOptionsForCall L this options,
               sr_address = canonicalOwner\<rparr>)))"

definition makeSOCWriter :: "lib \<Rightarrow> bee \<Rightarrow> signer_arg option \<Rightarrow> request_options option \<Rightarrow> error + soc_writer" where
  "makeSOCWriter L this signer options =
     assert_then (assertRequestOptions L options)
       (and_then (resolveSigner L this signer) (\<lambda>canonicalSigner.
        and_then (makeSOCReader L this (address canonicalSigner) options) (\<lambda>reader.
          Inr \<lparr>sw_reader = reader, sw_signer = canonicalSigner\<rparr>)))"

subsection \<open>Connectivity\<close>

definition isConnected :: "lib \<Rightarrow> bee \<Rightarrow> request_options option \<Rightarrow> bool io" where
  "isConnected L this options =
     io_assert (assertRequestOptions L options)
       (io_catch
          (io_bind
             (io_call (CheckConnection (getRequestOptionsForCall L this options))
                (case status_checkConnection L (getRequestOptionsForCall L this options) of
                   Some e \<Rightarrow> Inl e
                 | None \<Rightarrow> Inr ()))
             (\<lambda>_. io_return True))
          (\<lambda>e. io_return False))"


section \<open>The feed module, as the specification describes it\<close>

text \<open>
  The feed reader's \<open>download\<close> and \<open>areAllSequentialFeedsUpdateRetrievable\<close> live in the
  feed module, outside the sources. Their models below follow the specification (4.5 and
  4.6) over the updates of one sequence feed: slot \<open>i\<close> of the list is what fetching the
  update of index \<open>i\<close> gives, and an index beyond the list is missing.
\<close>

datatype slot =
    Valid bytes
  | Invalid
  | Missing
  | Failure error

definition fetchUpdate :: "slot list \<Rightarrow> nat \<Rightarrow> slot" where
  "fetchUpdate st i = (if i < length st then st ! i else Missing)"

text \<open>The absence miss \<open>FeedNotFound\<close>, which reaches the class as HTTP status 404.\<close>

definition FeedNotFound :: error where
  "FeedNotFound = ResponseError 404"

text \<open>
  Modelled from the spec: the exponential phase of \<open>readLatest\<close> ("probe indices 1, 2, 4,
  8, ... doubling until a fetch miss is observed"). \<open>lo\<close> is the last index that resolved,
  \<open>p\<close> its payload, \<open>2 ^ k\<close> the next probe; an update that fails authentication counts as
  a miss, a transport failure is passed through.
\<close>

function probeUp :: "slot list \<Rightarrow> nat \<Rightarrow> bytes \<Rightarrow> nat \<Rightarrow> error + nat \<times> bytes \<times> nat" where
  "probeUp st lo p k =
     (case fetchUpdate st (2 ^ k) of
        Valid q \<Rightarrow> probeUp st (2 ^ k) q (Suc k)
      | Failure e \<Rightarrow> Inl e
      | _ \<Rightarrow> Inr (lo, p, 2 ^ k))"
  by pat_completeness auto
termination
proof (relation "measure (\<lambda>(st, lo, p, k). length st - 2 ^ k)")
  show "wf (measure (\<lambda>(st, lo, p, k). length st - 2 ^ k))"
    by simp
next
  fix st :: "slot list" and lo :: nat and p :: bytes and k :: nat and q :: bytes
  assume "fetchUpdate st (2 ^ k) = Valid q"
  then have "(2::nat) ^ k < length st"
    by (auto simp: fetchUpdate_def split: if_splits)
  moreover have "0 < (2::nat) ^ k"
    by simp
  ultimately have "length st - 2 * 2 ^ k < length st - 2 ^ k"
    by arith
  then show "((st, 2 ^ k, q, Suc k), (st, lo, p, k)) \<in> measure (\<lambda>(st, lo, p, k). length st - 2 ^ k)"
    by simp
qed

declare probeUp.simps [simp del]

text \<open>
  Modelled from the spec: the second phase of \<open>readLatest\<close> ("binary search in the last
  successful/failed bracket to pinpoint the exact boundary"): \<open>lo\<close> resolved, \<open>hi\<close> did not.
\<close>

function bisect :: "slot list \<Rightarrow> nat \<Rightarrow> bytes \<Rightarrow> nat \<Rightarrow> error + bytes \<times> nat" where
  "bisect st lo p hi =
     (if hi \<le> Suc lo then Inr (p, lo)
      else
        (case fetchUpdate st ((lo + hi) div 2) of
           Valid q \<Rightarrow> bisect st ((lo + hi) div 2) q hi
         | Failure e \<Rightarrow> Inl e
         | _ \<Rightarrow> bisect st lo p ((lo + hi) div 2)))"
  by pat_completeness auto
termination
  by (relation "measure (\<lambda>(st, lo, p, hi). hi - lo)") auto

declare bisect.simps [simp del]

text \<open>
  Modelled from the spec: \<open>readLatest\<close>, sequence variant: the payload and the index of
  the highest update that exists; "fails with FeedNotFound if even index 0 is absent".
\<close>

definition readLatest :: "slot list \<Rightarrow> error + bytes \<times> nat" where
  "readLatest st =
     (case fetchUpdate st 0 of
        Valid p \<Rightarrow>
          (case probeUp st 0 p 0 of
             Inl e \<Rightarrow> Inl e
           | Inr (lo, q, hi) \<Rightarrow> bisect st lo q hi)
      | Failure e \<Rightarrow> Inl e
      | _ \<Rightarrow> Inl FeedNotFound)"

text \<open>
  Modelled from the spec: the chain check of \<open>isRetrievable\<close> ("every index from 0 up to
  and including targetIndex must independently resolve and authenticate ... false on the
  first missing or invalid index"): \<open>chainCheck st i n\<close> checks the indices \<open>i, ..., i + n\<close>.
\<close>

fun chainCheck :: "slot list \<Rightarrow> nat \<Rightarrow> nat \<Rightarrow> error + bool" where
  "chainCheck st i 0 =
     (case fetchUpdate st i of Valid _ \<Rightarrow> Inr True | Failure e \<Rightarrow> Inl e | _ \<Rightarrow> Inr False)"
| "chainCheck st i (Suc n) =
     (case fetchUpdate st i of
        Valid _ \<Rightarrow> chainCheck st (Suc i) n
      | Failure e \<Rightarrow> Inl e
      | _ \<Rightarrow> Inr False)"

subsection \<open>Hexadecimal text\<close>

definition hexValue :: "char \<Rightarrow> nat option" where
  "hexValue c =
     (if 48 \<le> (of_char c :: nat) \<and> (of_char c :: nat) \<le> 57 then Some (of_char c - 48)
      else if 97 \<le> (of_char c :: nat) \<and> (of_char c :: nat) \<le> 102 then Some (of_char c - 87)
      else None)"

fun hexToBytes :: "string \<Rightarrow> bytes option" where
  "hexToBytes [] = Some []"
| "hexToBytes [c] = None"
| "hexToBytes (c # d # cs) =
     (case hexValue c of
        None \<Rightarrow> None
      | Some h \<Rightarrow>
          (case hexValue d of
             None \<Rightarrow> None
           | Some l \<Rightarrow>
               (case hexToBytes cs of
                  None \<Rightarrow> None
                | Some bs \<Rightarrow> Some (of_nat (16 * h + l) # bs))))"

definition hexChar :: "nat \<Rightarrow> char" where
  "hexChar n = (if n < 10 then char_of (48 + n) else char_of (87 + n))"

definition bytesToHex :: "bytes \<Rightarrow> string" where
  "bytesToHex bs = concat (map (\<lambda>b. [hexChar (unat b div 16), hexChar (unat b mod 16)]) bs)"

text \<open>
  Modelled from the spec: a value of fixed width \<open>n\<close> bytes ("fails with InvalidLength
  unless len(b) == 32" for a topic, 20 bytes for an owner identity), given as bytes or as
  its lowercase hexadecimal text.
\<close>

definition fixedBytes :: "nat \<Rightarrow> js_data \<Rightarrow> error + bytes" where
  "fixedBytes n v =
     (case v of
        Uint8Array b \<Rightarrow> if length b = n then Inr b else Inl (TypeError ''InvalidLength'')
      | JsString s \<Rightarrow>
          (case hexToBytes s of
             Some b \<Rightarrow> if length b = n then Inr b else Inl (TypeError ''InvalidLength'')
           | None \<Rightarrow> Inl (TypeError ''InvalidLength'')))"

text \<open>
  Modelled from the spec: the sequence number an index argument stands for ("Sequence
  encodes a 64-bit counter big-endian into 8 bytes").
\<close>

definition sequenceIndex :: "index_arg \<Rightarrow> error + nat" where
  "sequenceIndex i =
     (case i of
        IndexNumber n \<Rightarrow> Inr n
      | IndexBytes b \<Rightarrow> and_then (fixedBytes 8 (Uint8Array b)) (\<lambda>bs. Inr (foldl (\<lambda>a x. 256 * a + unat x) 0 bs))
      | IndexString s \<Rightarrow> and_then (fixedBytes 8 (JsString s)) (\<lambda>bs. Inr (foldl (\<lambda>a x. 256 * a + unat x) 0 bs)))"

subsection \<open>A node to run the class against\<close>

text \<open>
  \<open>node_lib st ping\<close> supplies the helpers for a node that holds one sequence feed with
  the updates \<open>st\<close> and answers the connection check with \<open>ping\<close>. Its validators are those
  of the specification where it has them (fixed widths of 32 and 20 bytes, hexadecimal
  text); the others stand for the assertions of utils/type, which throw a \<open>TypeError\<close> on a
  value of unexpected form.
\<close>

definition node_lib :: "slot list \<Rightarrow> error option \<Rightarrow> lib" where
  "node_lib st ping =
     \<lparr>SPAN_SIZE = 8,
      CHUNK_SIZE = 4096,
      DEFAULT_FEED_TYPE = Sequence,
      assertBeeUrl = (\<lambda>u. if take 7 u = ''http://'' \<or> take 8 u = ''https://'' then None
                           else Some (TypeError ''URL is not valid!'')),
      assertBatchId = (\<lambda>b. case fixedBytes 32 (JsString b) of Inl e \<Rightarrow> Some e | Inr _ \<Rightarrow> None),
      assertUploadOptions = (\<lambda>_. None),
      assertRequestOptions =
        (\<lambda>v. case Option.bind v ro_timeout of
               Some t \<Rightarrow> if t < 0 then Some (TypeError ''timeout has to be bigger or equal to zero'')
                         else None
             | None \<Rightarrow> None),
      makeSigner =
        (\<lambda>s. case s of
               SignerObject sg \<Rightarrow> Inr sg
             | SignerBytes k \<Rightarrow>
                 and_then (fixedBytes 32 (Uint8Array k))
                   (\<lambda>b. Inr \<lparr>address = Uint8Array (take 20 b), sign = (\<lambda>d. b @ d)\<rparr>)
             | SignerString k \<Rightarrow>
                 and_then (fixedBytes 32 (JsString k))
                   (\<lambda>b. Inr \<lparr>address = Uint8Array (take 20 b), sign = (\<lambda>d. b @ d)\<rparr>)),
      makeEthAddress = (\<lambda>v. and_then (fixedBytes 20 v) (\<lambda>b. Inr (Uint8Array b))),
      makeHexEthAddress = (\<lambda>v. and_then (fixedBytes 20 v) (\<lambda>b. Inr (JsString (bytesToHex b)))),
      makeTopic = (\<lambda>v. and_then (fixedBytes 32 v) (\<lambda>b. Inr (Uint8Array b))),
      makeTopicFromString = (\<lambda>s. Uint8Array (take 32 (map of_char s @ replicate 32 0))),
      deepMerge2 =
        (\<lambda>a b. \<lparr>ro_baseURL = (case ro_baseURL b of Some u \<Rightarrow> Some u | None \<Rightarrow> ro_baseURL a),
                 ro_timeout = (case ro_timeout b of Some t \<Rightarrow> Some t | None \<Rightarrow> ro_timeout a),
                 ro_headers = (case ro_headers b of Some h \<Rightarrow> Some h | None \<Rightarrow> ro_headers a)\<rparr>),
      chunk_upload = (\<lambda>ro data batch opts. Inr (bytesToHex (take 32 data))),
      feedReader_download = (\<lambda>reader. readLatest st),
      areAllSequentialFeedsUpdateRetrievable =
        (\<lambda>this owner topic i ro. and_then (sequenceIndex i) (\<lambda>n. chainCheck st 0 n)),
      status_checkConnection = (\<lambda>ro. ping),
      feed_createFeedManifest = (\<lambda>ro owner topic batch type. Inr batch),
      getJsonData = (\<lambda>this reader. and_then (readLatest st) (\<lambda>(p, i). Inr (map (char_of \<circ> unat) p))),
      setJsonData = (\<lambda>this writer batch data opts ro. Inr batch)\<rparr>"

text \<open>An instance made by no particular constructor call, for running single methods.\<close>

definition node_bee :: bee where
  "node_bee =
     \<lparr>bee_url = ''http://localhost:1633'', bee_signer = None,
      bee_requestOptions =
        \<lparr>ro_baseURL = Some ''http://localhost:1633'', ro_timeout = None, ro_headers = None\<rparr>\<rparr>"

text \<open>Arguments for the node: a postage batch id, a topic and an owner in both of their
  shapes, a private key, and option objects.\<close>

definition node_batch :: string where
  "node_batch = ''1111111111111111111111111111111111111111111111111111111111111111''"

definition node_topic :: js_data where
  "node_topic = Uint8Array (replicate 32 0x22)"


definition node_owner :: js_data where
  "node_owner = Uint8Array (replicate 20 0x33)"

definition node_owner_hex :: js_data where
  "node_owner_hex = JsString ''3333333333333333333333333333333333333333''"

definition node_key :: string where
  "node_key = ''4444444444444444444444444444444444444444444444444444444444444444''"

definition both_options :: json_feed_options where
  "both_options =
     \<lparr>ro_baseURL = None, ro_timeout = None, ro_headers = None,
      jf_signer = Some (SignerString node_key), jf_address = Some node_owner, jf_type = None\<rparr>"

definition address_option :: json_feed_options where
  "address_option =
     \<lparr>ro_baseURL = None, ro_timeout = None, ro_headers = None,
      jf_signer = None, jf_address = Some node_owner, jf_type = None\<rparr>"

definition negative_timeout :: request_options where
  "negative_timeout = \<lparr>ro_baseURL = None, ro_timeout = Some (- 1), ro_headers = None\<rparr>"

text \<open>A signer object, an instance whose default signer it is, and options that carry it.\<close>

definition node_signer :: Signer where
  "node_signer = \<lparr>address = node_owner, sign = (\<lambda>digest. digest)\<rparr>"

definition signer_bee :: bee where
  "signer_bee = node_bee\<lparr>bee_signer := Some node_signer\<rparr>"

definition signer_option :: json_feed_options where
  "signer_option =
     \<lparr>ro_baseURL = None, ro_timeout = None, ro_headers = None,
      jf_signer = Some (SignerObject node_signer), jf_address = None, jf_type = None\<rparr>"

text \<open>
  \<open>nodes_lib stores\<close> supplies the helpers when there is more than one node: a request
  goes to the node that the \<open>baseURL\<close> of its request options names, and \<open>stores u\<close> is
  the sequence feed as node \<open>u\<close> holds it. \<open>two_nodes\<close> is the case of a feed that the
  node of the instance does not hold and a second node does, with its update 0;
  \<open>other_node\<close> are the per-call options that address the second node.
\<close>

definition nodes_lib :: "(string option \<Rightarrow> slot list) \<Rightarrow> lib" where
  "nodes_lib stores =
     (node_lib [] None)
       \<lparr>feedReader_download := (\<lambda>reader. readLatest (stores (ro_baseURL (fr_options reader)))),
        areAllSequentialFeedsUpdateRetrievable :=
          (\<lambda>this owner topic i ro.
             and_then (sequenceIndex i) (\<lambda>n. chainCheck (stores (ro_baseURL ro)) 0 n))\<rparr>"

definition two_nodes :: "string option \<Rightarrow> slot list" where
  "two_nodes u = (if u = Some ''http://other:1633'' then [Valid [7]] else [])"

definition other_node :: request_options where
  "other_node = \<lparr>ro_baseURL = Some ''http://other:1633'', ro_timeout = None, ro_headers = None\<rparr>"

section \<open>Facts about the node\<close>

lemmas io_defs = io_return_def io_throw_def io_lift_def io_call_def io_bind_def io_catch_def
  io_assert_def assert_then_def and_then_def

lemma node_assertBatchId: "assertBatchId (node_lib [] None) node_batch = None"
  by code_simp

lemma node_makeEthAddress: "makeEthAddress (node_lib st ping) node_owner = Inr node_owner"
  by (simp add: node_lib_def node_owner_def fixedBytes_def and_then_def)

lemma node_makeTopic: "makeTopic (node_lib st ping) node_topic = Inr node_topic"
  by (simp add: node_lib_def node_topic_def fixedBytes_def and_then_def)

lemma node_makeHexEthAddress_plain:
  "makeHexEthAddress (node_lib [] None) node_owner = Inr node_owner_hex"
  by code_simp

lemma node_makeHexEthAddress: "makeHexEthAddress (node_lib st ping) node_owner = Inr node_owner_hex"
  using node_makeHexEthAddress_plain by (simp add: node_lib_def)

lemma node_getRequestOptionsForCall:
  "getRequestOptionsForCall (node_lib st ping) node_bee None = bee_requestOptions node_bee"
  by (simp add: getRequestOptionsForCall_def)

lemma node_assertRequestOptions: "assertRequestOptions (node_lib st ping) None = None"
  by (simp add: node_lib_def)

lemma node_makeFeedReader:
  "makeFeedReader (node_lib st ping) node_bee type node_topic node_owner None
     = Inr (feed_makeFeedReader (bee_requestOptions node_bee) type node_topic node_owner_hex)"
  by (simp add: makeFeedReader_def node_getRequestOptionsForCall node_assertRequestOptions
      node_makeTopic node_makeHexEthAddress assert_then_def and_then_def)

lemma showNat_4096: "showNat 4096 = ''4096''"
  by (simp add: showNat.simps char_of_def bit_Suc_0_iff)

lemma node_msg_too_small:
  "msg_too_small (node_lib st ping) = ''Chunk has to have size of at least 8.''"
  by (simp add: msg_too_small_def node_lib_def showNat.simps char_of_def bit_Suc_0_iff)

lemma node_msg_too_large:
  "msg_too_large (node_lib st ping) = ''Chunk has to have size of at most 4096.''"
  by (simp add: msg_too_large_def node_lib_def showNat_4096)

section \<open>Chunk upload\<close>

text \<open>
  C5. With a batch id that \<open>assertBatchId\<close> accepts, \<open>uploadChunk\<close> throws the too-small
  \<open>BeeArgumentError\<close> when the data is shorter than \<open>SPAN_SIZE\<close> and the too-large one when
  it is longer than \<open>CHUNK_SIZE + SPAN_SIZE\<close>, in both cases with no call to the chunk
  module; data within the bounds (and options that pass their assertion) goes to
  \<open>chunk.upload\<close> as it is, in one call.
\<close>

theorem uploadChunk_length_guards:
  assumes "assertBatchId L postageBatchId = None"
  shows "(length data < SPAN_SIZE L \<longrightarrow>
            uploadChunk L this postageBatchId data options requestOptions
              = ([], Inl (BeeArgumentError (msg_too_small L))))
       \<and> (CHUNK_SIZE L + SPAN_SIZE L < length data \<longrightarrow>
            uploadChunk L this postageBatchId data options requestOptions
              = ([], Inl (BeeArgumentError (msg_too_large L))))
       \<and> (SPAN_SIZE L \<le> length data \<and> length data \<le> CHUNK_SIZE L + SPAN_SIZE L
            \<and> (\<forall>opts. options = Some opts \<longrightarrow> assertUploadOptions L opts = None) \<longrightarrow>
            uploadChunk L this postageBatchId data options requestOptions
              = ([ChunkUpload (getRequestOptionsForCall L this requestOptions) data postageBatchId],
                 chunk_upload L (getRequestOptionsForCall L this requestOptions) data postageBatchId
                   options))"
  using assms by (cases options) (auto simp: uploadChunk_def io_defs)

theorem uploadChunk_length_guards_witness:
  "uploadChunk (node_lib [] None) node_bee node_batch [1, 2, 3] None None
     = ([], Inl (BeeArgumentError ''Chunk has to have size of at least 8.''))
   \<and> uploadChunk (node_lib [] None) node_bee node_batch (replicate 4105 0) None None
     = ([], Inl (BeeArgumentError ''Chunk has to have size of at most 4096.''))
   \<and> uploadChunk (node_lib [] None) node_bee node_batch [1, 2, 3, 4, 5, 6, 7, 8] None None
     = ([ChunkUpload (bee_requestOptions node_bee) [1, 2, 3, 4, 5, 6, 7, 8] node_batch],
        chunk_upload (node_lib [] None) (bee_requestOptions node_bee) [1, 2, 3, 4, 5, 6, 7, 8]
          node_batch None)"
proof -
  have sizes: "SPAN_SIZE (node_lib [] None) = 8" "CHUNK_SIZE (node_lib [] None) = 4096"
    by (simp_all add: node_lib_def)
  show ?thesis
    using uploadChunk_length_guards [OF node_assertBatchId, of "[1, 2, 3]" node_bee None None]
      uploadChunk_length_guards [OF node_assertBatchId, of "replicate 4105 0" node_bee None None]
      uploadChunk_length_guards [OF node_assertBatchId, of "[1, 2, 3, 4, 5, 6, 7, 8]" node_bee
        None None]
    by (simp add: node_msg_too_small node_msg_too_large sizes node_getRequestOptionsForCall)
qed

section \<open>Retrievability of a feed\<close>

text \<open>
  C2 (as the code has it). For an epoch feed and a target index that is given (a number
  other than 0, a byte array, a non-empty string), \<open>isFeedRetrievable\<close> walks no chain: once
  owner and topic are canonical it throws the \<open>BeeError\<close> "Only Sequence type of Feeds is
  supported at the moment", and no request is made.
\<close>

theorem isFeedRetrievable_epoch:
  assumes "makeEthAddress L owner = Inr canonicalOwner"
    and "makeTopic L topic = Inr canonicalTopic"
    and "index_truthy i"
  shows "isFeedRetrievable L this Epoch owner topic (Some i) options
           = ([], Inl (BeeError msg_only_sequence))"
  using assms by (simp add: isFeedRetrievable_def present_def io_defs)

theorem isFeedRetrievable_epoch_witness:
  "isFeedRetrievable (node_lib [] None) node_bee Epoch node_owner node_topic
      (Some (IndexBytes [0, 0, 0, 0, 0, 0, 0, 4])) None
     = ([], Inl (BeeError msg_only_sequence))"
proof (rule isFeedRetrievable_epoch)
  show "makeEthAddress (node_lib [] None) node_owner = Inr node_owner"
    by (rule node_makeEthAddress)
  show "makeTopic (node_lib [] None) node_topic = Inr node_topic"
    by (rule node_makeTopic)
  show "index_truthy (IndexBytes [0, 0, 0, 0, 0, 0, 0, 4])"
    by simp
qed

text \<open>
  C2 as stated fails: on a node where the updates 0 to 4 all exist, the
  call for an epoch feed with target index 4 gives no verdict; it throws.
\<close>

theorem isFeedRetrievable_epoch_counterexample:
  "isFeedRetrievable (node_lib (map Valid [[0], [1], [2], [3], [4]]) None) node_bee Epoch
      node_owner node_topic (Some (IndexNumber 4)) None
     = ([], Inl (BeeError msg_only_sequence))"
  by code_simp

text \<open>
  C3. With no target index, \<open>isFeedRetrievable\<close> (for a feed of either type) makes the one
  download of the feed reader and turns its outcome into the answer: \<open>true\<close> when it
  succeeds, \<open>false\<close> when it fails with an error whose response status is 404, and the
  same error thrown again in every other case.
\<close>

theorem isFeedRetrievable_latest:
  assumes "makeEthAddress L owner = Inr canonicalOwner"
    and "makeTopic L topic = Inr canonicalTopic"
    and "makeFeedReader L this type canonicalTopic canonicalOwner None = Inr reader"
  shows "isFeedRetrievable L this type owner topic None options
           = ([FeedDownload (fr_options reader) (fr_type reader) (fr_topic reader) (fr_owner reader)],
              (case feedReader_download L reader of
                 Inr update \<Rightarrow> Inr True
               | Inl e \<Rightarrow> if response_status e = Some 404 then Inr False else Inl e))"
  using assms
  by (simp add: isFeedRetrievable_def present_def download_def io_defs split: sum.splits)

theorem isFeedRetrievable_latest_witness:
  "isFeedRetrievable (node_lib [] None) node_bee Epoch node_owner node_topic None None
     = ([FeedDownload (bee_requestOptions node_bee) Epoch node_topic node_owner_hex], Inr False)
   \<and> isFeedRetrievable (node_lib [Valid [7]] None) node_bee Sequence node_owner node_topic None None
     = ([FeedDownload (bee_requestOptions node_bee) Sequence node_topic node_owner_hex], Inr True)
   \<and> isFeedRetrievable (node_lib [Failure (OtherError ''timeout'')] None) node_bee Sequence
        node_owner node_topic None None
     = ([FeedDownload (bee_requestOptions node_bee) Sequence node_topic node_owner_hex],
        Inl (OtherError ''timeout''))"
proof -
  have d1: "feedReader_download (node_lib [] None) r = Inl (ResponseError 404)" for r
    by (simp add: node_lib_def readLatest_def fetchUpdate_def FeedNotFound_def)
  have "readLatest [Valid [7]] = Inr ([7], 0)"
    by code_simp
  then have d2: "feedReader_download (node_lib [Valid [7]] None) r = Inr ([7], 0)" for r
    by (simp add: node_lib_def)
  have d3: "feedReader_download (node_lib [Failure (OtherError ''timeout'')] None) r
              = Inl (OtherError ''timeout'')" for r
    by (simp add: node_lib_def readLatest_def fetchUpdate_def)
  show ?thesis
    using isFeedRetrievable_latest [OF node_makeEthAddress node_makeTopic node_makeFeedReader,
        of "[]" None Epoch None]
      isFeedRetrievable_latest [OF node_makeEthAddress node_makeTopic node_makeFeedReader,
        of "[Valid [7]]" None Sequence None]
      isFeedRetrievable_latest [OF node_makeEthAddress node_makeTopic node_makeFeedReader,
        of "[Failure (OtherError ''timeout'')]" None Sequence None]
    by (simp add: d1 d2 d3 feed_makeFeedReader_def)
qed

section \<open>Signers and addresses\<close>

text \<open>
  C8. When the options of \<open>getJsonFeed\<close> pass \<open>assertRequestOptions\<close> and carry both a
  signer and an address (each a truthy value), the call throws the \<open>BeeError\<close> that says
  the two options can not be specified at one time, and makes no request.
\<close>

theorem getJsonFeed_signer_and_address:
  assumes "assertRequestOptions L (Some (request_options.truncate opts)) = None"
    and "jf_signer opts = Some s" and "signer_truthy s"
    and "jf_address opts = Some a" and "data_truthy a"
  shows "getJsonFeed L this topic (Some opts) = ([], Inl (BeeError msg_both))"
  using assms by (simp add: getJsonFeed_def getJsonFeed_address_def present_def io_defs)

theorem getJsonFeed_signer_and_address_witness:
  "getJsonFeed (node_lib [] None) node_bee ''news'' (Some both_options)
     = ([], Inl (BeeError msg_both))"
proof (rule getJsonFeed_signer_and_address)
  show "assertRequestOptions (node_lib [] None) (Some (request_options.truncate both_options)) = None"
    by (simp add: node_lib_def both_options_def request_options.truncate_def)
  show "jf_signer both_options = Some (SignerString node_key)"
    by (simp add: both_options_def)
  show "signer_truthy (SignerString node_key)"
    by (simp add: node_key_def)
  show "jf_address both_options = Some node_owner"
    by (simp add: both_options_def)
  show "data_truthy node_owner"
    by (simp add: node_owner_def)
qed

text \<open>
  C4 (as the code has it). A writer has no address option: \<open>makeFeedWriter\<close>,
  \<open>makeSOCWriter\<close> and \<open>setJsonFeed\<close> are made with the signer of the call when one is
  given (made into a Signer by \<open>makeSigner\<close>), else with the default signer of the
  instance, and throw a \<open>BeeError\<close> when there is neither. \<open>getJsonFeed\<close> throws a
  \<open>BeeError\<close> when both a signer and an address are given; otherwise its reader is made
  for the address of the call when one is given, else for the address of the call's
  signer, else for that of the default signer, and it throws a \<open>BeeError\<close> when there is
  none of the three.
\<close>

theorem signer_precedence:
  "resolveSigner L this signer
     = (case present signer_truthy signer of
          Some s \<Rightarrow> makeSigner L s
        | None \<Rightarrow>
            (case bee_signer this of
               Some d \<Rightarrow> Inr d
             | None \<Rightarrow> Inl (BeeError msg_no_signer)))
   \<and> (assertRequestOptions L ro = None \<longrightarrow>
        makeFeedWriter L this type topic signer ro
          = (case makeTopic L topic of
               Inl e \<Rightarrow> Inl e
             | Inr canonicalTopic \<Rightarrow>
                 (case resolveSigner L this signer of
                    Inl e \<Rightarrow> Inl e
                  | Inr k \<Rightarrow>
                      Inr (feed_makeFeedWriter (getRequestOptionsForCall L this ro) type
                             canonicalTopic k))))
   \<and> (assertRequestOptions L ro = None \<longrightarrow>
        makeSOCWriter L this signer ro
          = (case resolveSigner L this signer of
               Inl e \<Rightarrow> Inl e
             | Inr k \<Rightarrow>
                 (case makeSOCReader L this (address k) ro of
                    Inl e \<Rightarrow> Inl e
                  | Inr r \<Rightarrow> Inr \<lparr>sw_reader = r, sw_signer = k\<rparr>)))
   \<and> (assertRequestOptions L (map_option request_options.truncate options) = None
        \<and> assertBatchId L batch = None \<longrightarrow>
        setJsonFeed L this batch name data options ro
          = (case makeFeedWriter L this (feedTypeOf L options) (makeFeedTopic L name)
                    (Option.bind options jf_signer) ro of
               Inl e \<Rightarrow> ([], Inl e)
             | Inr w \<Rightarrow>
                 ([SetJsonData (fw_options w) (fw_type w) (fw_topic w) (address (fw_signer w)) batch],
                  setJsonData L this w batch data options ro)))
   \<and> getJsonFeed_address L this options
       = (case present data_truthy (Option.bind options jf_address) of
            Some a \<Rightarrow>
              (case present signer_truthy (Option.bind options jf_signer) of
                 Some s \<Rightarrow> Inl (BeeError msg_both)
               | None \<Rightarrow> makeEthAddress L a)
          | None \<Rightarrow>
              (case present signer_truthy (Option.bind options jf_signer) of
                 Some s \<Rightarrow>
                   (case makeSigner L s of
                      Inr k \<Rightarrow> Inr (address k)
                    | Inl e \<Rightarrow> if instanceofBeeError e then Inl (BeeError msg_either) else Inl e)
               | None \<Rightarrow>
                   (case bee_signer this of
                      Some d \<Rightarrow> Inr (address d)
                    | None \<Rightarrow> Inl (BeeError msg_either))))
   \<and> (assertRequestOptions L (map_option request_options.truncate options) = None \<longrightarrow>
        getJsonFeed L this name options
          = (case getJsonFeed_address L this options of
               Inl e \<Rightarrow> ([], Inl e)
             | Inr addr \<Rightarrow>
                 (case makeFeedReader L this (feedTypeOf L options) (makeFeedTopic L name) addr
                         (map_option request_options.truncate options) of
                    Inl e \<Rightarrow> ([], Inl e)
                  | Inr r \<Rightarrow>
                      ([GetJsonData (fr_options r) (fr_type r) (fr_topic r) (fr_owner r)],
                       getJsonData L this r))))"
proof (intro conjI impI)
  show "resolveSigner L this signer
     = (case present signer_truthy signer of
          Some s \<Rightarrow> makeSigner L s
        | None \<Rightarrow>
            (case bee_signer this of
               Some d \<Rightarrow> Inr d
             | None \<Rightarrow> Inl (BeeError msg_no_signer)))"
    by (simp add: resolveSigner_def)
next
  assume "assertRequestOptions L ro = None"
  then show "makeFeedWriter L this type topic signer ro
          = (case makeTopic L topic of
               Inl e \<Rightarrow> Inl e
             | Inr canonicalTopic \<Rightarrow>
                 (case resolveSigner L this signer of
                    Inl e \<Rightarrow> Inl e
                  | Inr k \<Rightarrow>
                      Inr (feed_makeFeedWriter (getRequestOptionsForCall L this ro) type
                             canonicalTopic k)))"
    by (simp add: makeFeedWriter_def assert_then_def and_then_def)
next
  assume "assertRequestOptions L ro = None"
  then show "makeSOCWriter L this signer ro
          = (case resolveSigner L this signer of
               Inl e \<Rightarrow> Inl e
             | Inr k \<Rightarrow>
                 (case makeSOCReader L this (address k) ro of
                    Inl e \<Rightarrow> Inl e
                  | Inr r \<Rightarrow> Inr \<lparr>sw_reader = r, sw_signer = k\<rparr>))"
    by (simp add: makeSOCWriter_def assert_then_def and_then_def)
next
  assume "assertRequestOptions L (map_option request_options.truncate options) = None
        \<and> assertBatchId L batch = None"
  then show "setJsonFeed L this batch name data options ro
          = (case makeFeedWriter L this (feedTypeOf L options) (makeFeedTopic L name)
                    (Option.bind options jf_signer) ro of
               Inl e \<Rightarrow> ([], Inl e)
             | Inr w \<Rightarrow>
                 ([SetJsonData (fw_options w) (fw_type w) (fw_topic w) (address (fw_signer w)) batch],
                  setJsonData L this w batch data options ro))"
    by (simp add: setJsonFeed_def io_defs split: sum.splits)
next
  show "getJsonFeed_address L this options
       = (case present data_truthy (Option.bind options jf_address) of
            Some a \<Rightarrow>
              (case present signer_truthy (Option.bind options jf_signer) of
                 Some s \<Rightarrow> Inl (BeeError msg_both)
               | None \<Rightarrow> makeEthAddress L a)
          | None \<Rightarrow>
              (case present signer_truthy (Option.bind options jf_signer) of
                 Some s \<Rightarrow>
                   (case makeSigner L s of
                      Inr k \<Rightarrow> Inr (address k)
                    | Inl e \<Rightarrow> if instanceofBeeError e then Inl (BeeError msg_either) else Inl e)
               | None \<Rightarrow>
                   (case bee_signer this of
                      Some d \<Rightarrow> Inr (address d)
                    | None \<Rightarrow> Inl (BeeError msg_either))))"
    by (auto simp: getJsonFeed_address_def resolveSigner_def split: option.splits sum.splits)
next
  assume "assertRequestOptions L (map_option request_options.truncate options) = None"
  then show "getJsonFeed L this name options
          = (case getJsonFeed_address L this options of
               Inl e \<Rightarrow> ([], Inl e)
             | Inr addr \<Rightarrow>
                 (case makeFeedReader L this (feedTypeOf L options) (makeFeedTopic L name) addr
                         (map_option request_options.truncate options) of
                    Inl e \<Rightarrow> ([], Inl e)
                  | Inr r \<Rightarrow>
                      ([GetJsonData (fr_options r) (fr_type r) (fr_topic r) (fr_owner r)],
                       getJsonData L this r)))"
    by (simp add: getJsonFeed_def io_defs split: sum.splits)
qed

theorem signer_precedence_witness:
  "makeFeedWriter (node_lib [] None) signer_bee Sequence node_topic
      (Some (SignerObject \<lparr>address = node_owner_hex, sign = (\<lambda>digest. [])\<rparr>)) None
     = Inr (feed_makeFeedWriter (bee_requestOptions node_bee) Sequence node_topic
              \<lparr>address = node_owner_hex, sign = (\<lambda>digest. [])\<rparr>)
   \<and> makeFeedWriter (node_lib [] None) signer_bee Sequence node_topic None None
     = Inr (feed_makeFeedWriter (bee_requestOptions node_bee) Sequence node_topic node_signer)
   \<and> makeFeedWriter (node_lib [] None) node_bee Sequence node_topic None None
     = Inl (BeeError msg_no_signer)
   \<and> makeSOCWriter (node_lib [] None) node_bee (Some (SignerString [])) None
     = Inl (BeeError msg_no_signer)
   \<and> fst (setJsonFeed (node_lib [] None) node_bee node_batch ''news'' ''{}'' None None) = []
   \<and> snd (setJsonFeed (node_lib [] None) node_bee node_batch ''news'' ''{}'' None None)
     = Inl (BeeError msg_no_signer)
   \<and> setJsonFeed (node_lib [] None) signer_bee node_batch ''news'' ''{}'' (Some signer_option) None
     = ([SetJsonData (bee_requestOptions node_bee) Sequence
           (makeFeedTopic (node_lib [] None) ''news'') node_owner node_batch],
        Inr node_batch)
   \<and> getJsonFeed_address (node_lib [] None) signer_bee (Some address_option) = Inr node_owner
   \<and> getJsonFeed_address (node_lib [] None) node_bee (Some signer_option) = Inr node_owner
   \<and> getJsonFeed_address (node_lib [] None) signer_bee None = Inr node_owner
   \<and> getJsonFeed_address (node_lib [] None) node_bee None = Inl (BeeError msg_either)"
proof -
  let ?L = "node_lib [] None"
  let ?given = "\<lparr>address = node_owner_hex, sign = (\<lambda>digest. [])\<rparr> :: Signer"
  note rs = signer_precedence [THEN conjunct1]
  note fw = signer_precedence [THEN conjunct2, THEN conjunct1, rule_format,
      OF node_assertRequestOptions]
  note sw = signer_precedence [THEN conjunct2, THEN conjunct2, THEN conjunct1, rule_format,
      OF node_assertRequestOptions]
  note sj = signer_precedence [THEN conjunct2, THEN conjunct2, THEN conjunct2, THEN conjunct1,
      rule_format]
  note ga = signer_precedence [THEN conjunct2, THEN conjunct2, THEN conjunct2, THEN conjunct2,
      THEN conjunct1]
  have mk: "makeSigner ?L (SignerObject sg) = Inr sg" for sg
    by (simp add: node_lib_def)
  have dflt: "bee_signer signer_bee = Some node_signer" "bee_signer node_bee = None"
    "bee_requestOptions signer_bee = bee_requestOptions node_bee"
    by (simp_all add: signer_bee_def node_bee_def)
  have ro: "getRequestOptionsForCall ?L signer_bee None = bee_requestOptions node_bee"
    by (simp add: getRequestOptionsForCall_def dflt)
  have truthy: "data_truthy node_owner"
    by (simp add: node_owner_def)
  have a: "makeFeedWriter ?L signer_bee Sequence node_topic (Some (SignerObject ?given)) None
      = Inr (feed_makeFeedWriter (bee_requestOptions node_bee) Sequence node_topic ?given)"
    by (simp add: fw rs node_makeTopic present_def mk ro)
  have b: "makeFeedWriter ?L signer_bee Sequence node_topic None None
      = Inr (feed_makeFeedWriter (bee_requestOptions node_bee) Sequence node_topic node_signer)"
    by (simp add: fw rs node_makeTopic present_def dflt ro)
  have c: "makeFeedWriter ?L node_bee Sequence node_topic None None = Inl (BeeError msg_no_signer)"
    by (simp add: fw rs node_makeTopic present_def dflt)
  have d: "makeSOCWriter ?L node_bee (Some (SignerString [])) None = Inl (BeeError msg_no_signer)"
    by (simp add: sw rs present_def dflt)
  have topic: "makeTopic ?L (makeFeedTopic ?L ''news'') = Inr (makeFeedTopic ?L ''news'')"
    by code_simp
  have w: "makeFeedWriter ?L node_bee (feedTypeOf ?L None) (makeFeedTopic ?L ''news'')
             None None = Inl (BeeError msg_no_signer)"
    by (simp add: fw rs topic present_def dflt)
  have opts: "assertRequestOptions ?L (map_option request_options.truncate None) = None
      \<and> assertBatchId ?L node_batch = None"
    by (simp add: node_assertRequestOptions node_assertBatchId)
  have e: "setJsonFeed ?L node_bee node_batch ''news'' ''{}'' None None
      = ([], Inl (BeeError msg_no_signer))"
    by (simp add: sj [OF opts] w)
  have ft: "feedTypeOf ?L (Some signer_option) = Sequence"
    by (simp add: feedTypeOf_def signer_option_def node_lib_def)
  have w': "makeFeedWriter ?L signer_bee (feedTypeOf ?L (Some signer_option))
             (makeFeedTopic ?L ''news'') (Some (SignerObject node_signer)) None
      = Inr (feed_makeFeedWriter (bee_requestOptions node_bee) Sequence
               (makeFeedTopic ?L ''news'') node_signer)"
    by (simp add: fw rs topic present_def mk ro ft)
  have opts': "assertRequestOptions ?L (map_option request_options.truncate (Some signer_option)) = None
      \<and> assertBatchId ?L node_batch = None"
    by (simp add: node_assertBatchId) (simp add: node_lib_def signer_option_def
        request_options.truncate_def)
  have j: "setJsonFeed ?L signer_bee node_batch ''news'' ''{}'' (Some signer_option) None
      = ([SetJsonData (bee_requestOptions node_bee) Sequence (makeFeedTopic ?L ''news'') node_owner
            node_batch],
         Inr node_batch)"
  proof -
    have s: "Option.bind (Some signer_option) jf_signer = Some (SignerObject node_signer)"
      by (simp add: signer_option_def)
    have r: "setJsonData ?L b wr node_batch d o1 o2 = Inr node_batch" for b wr d o1 o2
      by (simp add: node_lib_def)
    show ?thesis
      unfolding sj [OF opts'] s w'
      by (simp add: feed_makeFeedWriter_def r node_signer_def)
  qed
  have f: "getJsonFeed_address ?L signer_bee (Some address_option) = Inr node_owner"
    by (simp add: ga present_def address_option_def truthy node_makeEthAddress)
  have g: "getJsonFeed_address ?L node_bee (Some signer_option) = Inr node_owner"
    by (simp add: ga present_def signer_option_def mk node_signer_def)
  have h: "getJsonFeed_address ?L signer_bee None = Inr node_owner"
    by (simp add: ga present_def dflt node_signer_def)
  have i: "getJsonFeed_address ?L node_bee None = Inl (BeeError msg_either)"
    by (simp add: ga present_def dflt)
  show ?thesis
    using a b c d e j f g h i by simp
qed

text \<open>
  C4 as stated fails: with a signer and an address both given, the signer
  does not take precedence; the call is refused, although identities are available.
\<close>

theorem getJsonFeed_both_counterexample:
  "getJsonFeed_address (node_lib [] None) node_bee (Some both_options) = Inl (BeeError msg_both)"
  by (simp add: getJsonFeed_address_def present_def both_options_def node_key_def node_owner_def)

section \<open>Connectivity\<close>

text \<open>
  C9 (as the code has it). The options are validated before the \<open>try\<close>: options that
  \<open>assertRequestOptions\<close> refuses make \<open>isConnected\<close> throw that error without a request.
  With options that pass, \<open>isConnected\<close> never throws: it makes the one connection check
  and answers \<open>true\<close> when the check succeeds and \<open>false\<close> when it throws, whatever the error.
\<close>

theorem isConnected_after_validation:
  "(assertRequestOptions L options = None \<longrightarrow>
      isConnected L this options
        = ([CheckConnection (getRequestOptionsForCall L this options)],
           Inr (status_checkConnection L (getRequestOptionsForCall L this options) = None)))
   \<and> (assertRequestOptions L options = Some e \<longrightarrow> isConnected L this options = ([], Inl e))"
  by (auto simp: isConnected_def io_defs split: option.splits)

theorem isConnected_after_validation_witness:
  "isConnected (node_lib [] None) node_bee None
     = ([CheckConnection (bee_requestOptions node_bee)], Inr True)
   \<and> isConnected (node_lib [] (Some (OtherError ''ECONNREFUSED''))) node_bee None
     = ([CheckConnection (bee_requestOptions node_bee)], Inr False)
   \<and> isConnected (node_lib [] (Some (ResponseError 500))) node_bee None
     = ([CheckConnection (bee_requestOptions node_bee)], Inr False)"
proof -
  have ping: "status_checkConnection (node_lib st ping) r = ping" for st ping r
    by (simp add: node_lib_def)
  show ?thesis
    using isConnected_after_validation [of "node_lib [] None" None node_bee]
      isConnected_after_validation [of "node_lib [] (Some (OtherError ''ECONNREFUSED''))" None node_bee]
      isConnected_after_validation [of "node_lib [] (Some (ResponseError 500))" None node_bee]
    by (simp add: node_assertRequestOptions node_getRequestOptionsForCall ping)
qed

text \<open>
  C9 as stated fails: with a negative timeout in its options, on a node
  that is up, \<open>isConnected\<close> throws the validation's \<open>TypeError\<close>.
\<close>

theorem isConnected_rejects_counterexample:
  "isConnected (node_lib [] None) node_bee (Some negative_timeout)
     = ([], Inl (TypeError ''timeout has to be bigger or equal to zero''))"
  by (simp add: isConnected_def node_lib_def negative_timeout_def io_defs)

section \<open>The latest update and the chain of a sequence feed\<close>

lemma probeUp_bracket:
  "\<forall>i\<le>N. fetchUpdate st i = Valid (pl i) \<Longrightarrow> \<forall>i>N. fetchUpdate st i = Missing \<Longrightarrow>
   lo \<le> N \<Longrightarrow> lo < 2 ^ k \<Longrightarrow> p = pl lo \<Longrightarrow>
     \<exists>lo' hi. probeUp st lo p k = Inr (lo', pl lo', hi) \<and> lo' \<le> N \<and> N < hi"
proof (induction st lo p k rule: probeUp.induct)
  case (1 st lo p k)
  show ?case
  proof (cases "2 ^ k \<le> N")
    case True
    then have f: "fetchUpdate st (2 ^ k) = Valid (pl (2 ^ k))"
      using "1.prems"(1) by blast
    have "\<exists>lo' hi. probeUp st (2 ^ k) (pl (2 ^ k)) (Suc k) = Inr (lo', pl lo', hi) \<and> lo' \<le> N \<and> N < hi"
      using "1.IH" [OF f "1.prems"(1) "1.prems"(2) True] by simp
    then show ?thesis
      by (subst probeUp.simps) (simp add: f)
  next
    case False
    then have f: "fetchUpdate st (2 ^ k) = Missing"
      using "1.prems"(2) by simp
    show ?thesis
      using False "1.prems"(3,5) by (subst probeUp.simps) (simp add: f)
  qed
qed

lemma bisect_finds:
  "\<forall>i\<le>N. fetchUpdate st i = Valid (pl i) \<Longrightarrow> \<forall>i>N. fetchUpdate st i = Missing \<Longrightarrow>
   lo \<le> N \<Longrightarrow> N < hi \<Longrightarrow> p = pl lo \<Longrightarrow> bisect st lo p hi = Inr (pl N, N)"
proof (induction st lo p hi rule: bisect.induct)
  case (1 st lo p hi)
  show ?case
  proof (cases "hi \<le> Suc lo")
    case True
    then have "lo = N"
      using "1.prems"(3,4) by simp
    then show ?thesis
      using True "1.prems"(5) by (subst bisect.simps) simp
  next
    case far: False
    let ?mid = "(lo + hi) div 2"
    have mid: "lo < ?mid" "?mid < hi"
      using far by simp_all
    show ?thesis
    proof (cases "?mid \<le> N")
      case True
      then have f: "fetchUpdate st ?mid = Valid (pl ?mid)"
        using "1.prems"(1) by blast
      have "bisect st ?mid (pl ?mid) hi = Inr (pl N, N)"
        using "1.IH"(1) [OF far f "1.prems"(1) "1.prems"(2) True "1.prems"(4)] by simp
      then show ?thesis
        using far by (subst bisect.simps) (simp add: f)
    next
      case False
      then have f: "fetchUpdate st ?mid = Missing"
        using "1.prems"(2) by simp
      have "bisect st lo p ?mid = Inr (pl N, N)"
        using "1.IH"(3) [OF far f "1.prems"(1) "1.prems"(2) "1.prems"(3) _ "1.prems"(5)] False by simp
      then show ?thesis
        using far by (subst bisect.simps) (simp add: f)
    qed
  qed
qed


text \<open>
  C6. On a sequence feed whose updates exist exactly at the indices \<open>0, ..., N\<close> (every
  later index is missing), \<open>readLatest\<close>, and with it the download of a feed reader on
  such a node, returns the update of index \<open>N\<close> with that index; when index 0 is missing
  it fails with \<open>FeedNotFound\<close>.
\<close>

theorem readLatest_highest:
  "((\<forall>i\<le>N. fetchUpdate st i = Valid (pl i)) \<and> (\<forall>i>N. fetchUpdate st i = Missing) \<longrightarrow>
      readLatest st = Inr (pl N, N)
      \<and> download (node_lib st ping) reader
          = ([FeedDownload (fr_options reader) (fr_type reader) (fr_topic reader) (fr_owner reader)],
             Inr (pl N, N)))
   \<and> (fetchUpdate st 0 = Missing \<longrightarrow>
      readLatest st = Inl FeedNotFound
      \<and> download (node_lib st ping) reader
          = ([FeedDownload (fr_options reader) (fr_type reader) (fr_topic reader) (fr_owner reader)],
             Inl FeedNotFound))"
proof (intro conjI impI)
  assume h: "(\<forall>i\<le>N. fetchUpdate st i = Valid (pl i)) \<and> (\<forall>i>N. fetchUpdate st i = Missing)"
  then have v: "\<forall>i\<le>N. fetchUpdate st i = Valid (pl i)" and m: "\<forall>i>N. fetchUpdate st i = Missing"
    by simp_all
  have zero: "fetchUpdate st 0 = Valid (pl 0)"
    using v by simp
  show latest: "readLatest st = Inr (pl N, N)"
  proof (cases "N = 0")
    case True
    then have "fetchUpdate st (2 ^ 0) = Missing"
      using m by simp
    then have "probeUp st 0 (pl 0) 0 = Inr (0, pl 0, 1)"
      by (subst probeUp.simps) simp
    moreover have "bisect st 0 (pl 0) 1 = Inr (pl 0, 0)"
      by (subst bisect.simps) simp
    ultimately show ?thesis
      using True by (simp add: readLatest_def zero)
  next
    case False
    obtain lo hi where b: "probeUp st 0 (pl 0) 0 = Inr (lo, pl lo, hi)" "lo \<le> N" "N < hi"
      using probeUp_bracket [OF v m, of 0 0 "pl 0"] by auto
    have "bisect st lo (pl lo) hi = Inr (pl N, N)"
      using bisect_finds [OF v m b(2) b(3) refl] .
    then show ?thesis
      by (simp add: readLatest_def zero b(1))
  qed
  show "download (node_lib st ping) reader
          = ([FeedDownload (fr_options reader) (fr_type reader) (fr_topic reader) (fr_owner reader)],
             Inr (pl N, N))"
    using latest by (simp add: download_def io_call_def node_lib_def)
next
  assume miss: "fetchUpdate st 0 = Missing"
  then show none: "readLatest st = Inl FeedNotFound"
    by (simp add: readLatest_def)
  then show "download (node_lib st ping) reader
          = ([FeedDownload (fr_options reader) (fr_type reader) (fr_topic reader) (fr_owner reader)],
             Inl FeedNotFound)"
    by (simp add: download_def io_call_def node_lib_def)
qed

theorem readLatest_highest_witness:
  "readLatest (map Valid [[10], [11], [12], [13], [14]]) = Inr ([14], 4)
   \<and> readLatest [] = Inl (ResponseError 404)"
proof -
  let ?st = "map Valid [[10], [11], [12], [13], [14 :: byte]]"
  let ?pl = "\<lambda>i. [of_nat (10 + i)] :: bytes"
  have le4: "i \<le> 4 \<longleftrightarrow> i = 0 \<or> i = 1 \<or> i = 2 \<or> i = 3 \<or> i = 4" for i :: nat
    by arith
  have v: "\<forall>i\<le>4. fetchUpdate ?st i = Valid (?pl i)"
    by (auto simp: le4 fetchUpdate_def)
  have m: "\<forall>i>4. fetchUpdate ?st i = Missing"
    by (simp add: fetchUpdate_def)
  have e: "fetchUpdate [] 0 = Missing"
    by (simp add: fetchUpdate_def)
  show ?thesis
    using readLatest_highest [of 4 ?st ?pl] readLatest_highest [of _ "[]"] v m e
    by (simp add: FeedNotFound_def)
qed

lemma chainCheck_true_iff:
  "chainCheck st i n = Inr True \<longleftrightarrow> (\<forall>j\<le>n. \<exists>p. fetchUpdate st (i + j) = Valid p)"
proof (induction n arbitrary: i)
  case 0
  show ?case
    by (cases "fetchUpdate st i") simp_all
next
  case (Suc n)
  have split: "(\<forall>j\<le>Suc n. \<exists>p. fetchUpdate st (i + j) = Valid p)
      \<longleftrightarrow> (\<exists>p. fetchUpdate st i = Valid p) \<and> (\<forall>j\<le>n. \<exists>p. fetchUpdate st (Suc i + j) = Valid p)"
  proof
    assume a: "\<forall>j\<le>Suc n. \<exists>p. fetchUpdate st (i + j) = Valid p"
    have "\<exists>p. fetchUpdate st (i + 0) = Valid p"
      using a by blast
    moreover have "\<exists>p. fetchUpdate st (Suc i + j) = Valid p" if "j \<le> n" for j
      using a [rule_format, of "Suc j"] that by simp
    ultimately show "(\<exists>p. fetchUpdate st i = Valid p) \<and> (\<forall>j\<le>n. \<exists>p. fetchUpdate st (Suc i + j) = Valid p)"
      by simp
  next
    assume b: "(\<exists>p. fetchUpdate st i = Valid p) \<and> (\<forall>j\<le>n. \<exists>p. fetchUpdate st (Suc i + j) = Valid p)"
    show "\<forall>j\<le>Suc n. \<exists>p. fetchUpdate st (i + j) = Valid p"
    proof (intro allI impI)
      fix j assume "j \<le> Suc n"
      then show "\<exists>p. fetchUpdate st (i + j) = Valid p"
        using b by (cases j) auto
    qed
  qed
  show ?case
    unfolding split using Suc.IH [of "Suc i"]
    by (cases "fetchUpdate st i") simp_all
qed

lemma chainCheck_first_gap:
  "j \<le> n \<Longrightarrow> \<forall>l<j. \<exists>p. fetchUpdate st (i + l) = Valid p \<Longrightarrow>
   fetchUpdate st (i + j) = Missing \<or> fetchUpdate st (i + j) = Invalid \<Longrightarrow>
   chainCheck st i n = Inr False"
proof (induction n arbitrary: i j)
  case 0
  then show ?case
    by auto
next
  case (Suc n)
  show ?case
  proof (cases j)
    case 0
    then show ?thesis
      using Suc.prems(3) by auto
  next
    case (Suc j')
    obtain p where p: "fetchUpdate st i = Valid p"
      using Suc.prems(2) [rule_format, of 0] Suc by auto
    have "chainCheck st (Suc i) n = Inr False"
    proof (rule Suc.IH [of j'])
      show "j' \<le> n"
        using Suc.prems(1) Suc by simp
      show "\<forall>l<j'. \<exists>p. fetchUpdate st (Suc i + l) = Valid p"
        using Suc.prems(2) Suc by (metis Suc_less_eq add_Suc_shift)
      show "fetchUpdate st (Suc i + j') = Missing \<or> fetchUpdate st (Suc i + j') = Invalid"
        using Suc.prems(3) Suc by simp
    qed
    then show ?thesis
      by (simp add: p)
  qed
qed

lemma isFeedRetrievable_chain:
  assumes "0 < t"
  shows "isFeedRetrievable (node_lib st ping) node_bee Sequence node_owner node_topic
           (Some (IndexNumber t)) None
         = ([ChainCheck node_owner node_topic (IndexNumber t) (bee_requestOptions node_bee)],
            chainCheck st 0 t)"
proof -
  have "areAllSequentialFeedsUpdateRetrievable (node_lib st ping) b node_owner node_topic
          (IndexNumber t) r = chainCheck st 0 t" for b r
    by (simp add: node_lib_def sequenceIndex_def and_then_def)
  then show ?thesis
    using assms
    by (simp add: isFeedRetrievable_def present_def node_makeEthAddress node_makeTopic
        node_getRequestOptionsForCall io_lift_def io_bind_def io_call_def)
qed

lemma isFeedRetrievable_zero_is_latest:
  "isFeedRetrievable L this type owner topic (Some (IndexNumber 0)) options
     = isFeedRetrievable L this type owner topic None options"
  by (simp add: isFeedRetrievable_def present_def)

text \<open>
  C1. For a target index other than 0 the call is the chain check, made with the request
  options of the call, and (with the check of the specification) its verdict is the one
  stated. The number 0, however, is falsy: \<open>if (!index)\<close> takes it for a missing index, and
  the call becomes the lookup of the latest update, made without the options of the call.
  With an instance on a node that does not hold the feed and a call that addresses a
  second node, which holds update 0: the call with target 0 asks the node of the instance
  for the latest update and answers \<open>false\<close>, though the chain 0..0 resolves on the node
  addressed; given the same index as eight zero bytes, the call makes the chain check
  there and answers \<open>true\<close>.
\<close>

theorem isFeedRetrievable_index_zero:
  "isFeedRetrievable (nodes_lib two_nodes) node_bee Sequence node_owner node_topic
      (Some (IndexNumber 0)) (Some other_node)
     = ([FeedDownload (bee_requestOptions node_bee) Sequence node_topic node_owner_hex], Inr False)
   \<and> chainCheck (two_nodes (ro_baseURL other_node)) 0 0 = Inr True
   \<and> isFeedRetrievable (nodes_lib two_nodes) node_bee Sequence node_owner node_topic
        (Some (IndexBytes [0, 0, 0, 0, 0, 0, 0, 0])) (Some other_node)
     = ([ChainCheck node_owner node_topic (IndexBytes [0, 0, 0, 0, 0, 0, 0, 0]) other_node],
        Inr True)"
  by code_simp




section \<open>Construction\<close>

lemma stripLastSlash_trailing:
  "(stripLastSlash url \<noteq> [] \<and> last (stripLastSlash url) = CHR ''/'') \<longleftrightarrow> (\<exists>u. url = u @ ''//'')"
proof (cases url rule: rev_cases)
  case Nil
  then show ?thesis
    by (simp add: stripLastSlash_def)
next
  case (snoc u c)
  show ?thesis
  proof (cases "c = CHR ''/''")
    case True
    then show ?thesis
      using snoc by (cases u rule: rev_cases) (auto simp: stripLastSlash_def butlast_append)
  next
    case False
    then show ?thesis
      using snoc by (auto simp: stripLastSlash_def)
  qed
qed

text \<open>
  C10 (with \<open>stripLastSlash\<close> as the constructor's comment describes it). A constructor
  call that succeeds has validated the URL, and the instance holds the URL without its
  last character when that is a slash, and unchanged otherwise, as its \<open>url\<close> and as the
  \<open>baseURL\<close> of its request options. The stored URL still ends in a slash exactly when the
  URL given ended in two: for every other URL, appending a path that starts with a slash
  makes no double slash at the join.
\<close>

theorem constructor_url:
  assumes "Bee_constructor L url options = Inr b"
  shows "assertBeeUrl L url = None
       \<and> bee_url b = (if url \<noteq> [] \<and> last url = CHR ''/'' then butlast url else url)
       \<and> ro_baseURL (bee_requestOptions b) = Some (bee_url b)
       \<and> ((bee_url b \<noteq> [] \<and> last (bee_url b) = CHR ''/'') \<longleftrightarrow> (\<exists>u. url = u @ ''//''))"
proof -
  have ok: "assertBeeUrl L url = None"
    using assms by (cases "assertBeeUrl L url") (simp_all add: Bee_constructor_def assert_then_def)
  have u: "bee_url b = stripLastSlash url" and r: "ro_baseURL (bee_requestOptions b) = Some (bee_url b)"
    using assms ok
    by (auto simp: Bee_constructor_def assert_then_def and_then_def split: option.splits sum.splits)
  show ?thesis
    using ok r stripLastSlash_trailing [of url] unfolding u
    by (simp add: stripLastSlash_def)
qed

theorem constructor_url_witness:
  "map_sum id bee_url (Bee_constructor (node_lib [] None) ''http://localhost:1633/'' None)
     = Inr ''http://localhost:1633''"
proof -
  have c: "Bee_constructor (node_lib [] None) ''http://localhost:1633/'' None
      = Inr \<lparr>bee_url = ''http://localhost:1633'', bee_signer = None,
             bee_requestOptions =
               \<lparr>ro_baseURL = Some ''http://localhost:1633'', ro_timeout = None, ro_headers = None\<rparr>\<rparr>"
    by (simp add: Bee_constructor_def node_lib_def stripLastSlash_def present_def
        assert_then_def and_then_def)
  show ?thesis
    using constructor_url [OF c] by (simp add: c)
qed

text \<open>
  C10 as stated fails: a URL that ends in two slashes is a valid URL, one
  slash stays in the stored URL, and the endpoint path makes a double slash.
\<close>

theorem constructor_url_counterexample:
  "map_sum id (\<lambda>b. bee_url b @ ''/bytes'')
     (Bee_constructor (node_lib [] None) ''http://localhost:1633//'' None)
     = Inr ''http://localhost:1633//bytes''"
  by (simp add: Bee_constructor_def node_lib_def stripLastSlash_def present_def
      assert_then_def and_then_def)

end
